theory Spec2Isabelle
  imports Main "HOL-Library.AList"
begin

section \<open>Values crossing the adapter\<close>

text \<open>
  Response bodies, cookies, parsed bodies and query strings are JavaScript values of
  type \<open>any\<close>. They are kept as JSON trees; an object is the list of its own
  enumerable properties in the order a \<open>for .. in\<close> loop visits them.
\<close>

datatype json =
    JNull
  | JBool bool
  | JNum int
  | JStr string
  | JArr "json list"
  | JObj "(string \<times> json) list"

text \<open>\<open>Adapter.ADAPTER_NAME\<close> and \<open>Adapter.DEFAULT_PORT\<close>.\<close>

definition ADAPTER_NAME :: string where
  "ADAPTER_NAME = ''Express''"

definition DEFAULT_PORT :: int where
  "DEFAULT_PORT = 3000"

section \<open>Errors\<close>

text \<open>
  Modelled from the spec: the class \<open>ApiError\<close> belongs to the handler core and is
  not part of the sources; an API error carries an explicit HTTP status and a message.
  An error value is an instance of \<open>ApiError\<close>, or anything else that can be thrown,
  kept with the name of its class and its message.
\<close>

datatype error =
    ApiError (httpStatus: int) (message: string)
  | OtherError (className: string) (message: string)

fun isApiError :: "error \<Rightarrow> bool" where
  "isApiError (ApiError st msg) = True"
| "isApiError (OtherError cls msg) = False"

section \<open>The transport response handle\<close>

text \<open>
  The Express \<open>Response\<close> is an external collaborator: the adapter only calls
  \<open>setHeader\<close>, \<open>cookie\<close>, \<open>status\<close> and \<open>send\<close> on it. The handle is
  modelled as the sequence of those calls, oldest first, with their arguments.

  The entries of a command payload have the types the two handlers declare:
  \<open>ExpressCommandSetHeaderPayload\<close> maps a name to a string,
  \<open>ExpressCommandSetCookiePayload\<close> maps a name to \<open>CookieOptions & {value: string}\<close>.
  The handlers are called through \<open>any\<close>, so either handler can meet either entry.
\<close>

record ExpressCookie =
  cookieValue :: string
  cookieOptions :: "(string \<times> json) list"

datatype entry =
    StringEntry string
  | CookieEntry ExpressCookie

type_synonym payload = "(string \<times> entry) list"

datatype headerArg =
    NumberArg int
  | EntryArg entry

datatype call =
    Call_setHeader string headerArg
  | Call_cookie string "string option" entry
  | Call_status int
  | Call_send json

type_synonym Response = "call list"

definition res_setHeader :: "Response \<Rightarrow> string \<Rightarrow> headerArg \<Rightarrow> Response" where
  "res_setHeader response headerName v = response @ [Call_setHeader headerName v]"

definition res_cookie :: "Response \<Rightarrow> string \<Rightarrow> string option \<Rightarrow> entry \<Rightarrow> Response" where
  "res_cookie response cookieName v opts = response @ [Call_cookie cookieName v opts]"

definition res_status :: "Response \<Rightarrow> int \<Rightarrow> Response" where
  "res_status response code = response @ [Call_status code]"

definition res_send :: "Response \<Rightarrow> json \<Rightarrow> Response" where
  "res_send response b = response @ [Call_send b]"

text \<open>
  How a piece of code that drives the response handle ends: it returns, or an exception
  leaves it; either way the calls made so far stay on the handle.
\<close>

datatype effect =
    Returns Response
  | Throws Response error

section \<open>commands/Commands.ts\<close>

text \<open>
  \<open>cookies[cookieName].value\<close>: the \<open>value\<close> property of an entry. A string has
  no such property, the read gives \<open>undefined\<close> (\<open>None\<close>).
\<close>

fun valueOf :: "entry \<Rightarrow> string option" where
  "valueOf (CookieEntry c) = Some (cookieValue c)"
| "valueOf (StringEntry s) = None"

definition setHeader :: "Response \<Rightarrow> payload \<Rightarrow> Response" where
  "setHeader response headers =
     foldl (\<lambda>r (headerName, v). res_setHeader r headerName (EntryArg v)) response headers"

definition setCookie :: "Response \<Rightarrow> payload \<Rightarrow> Response" where
  "setCookie response cookies =
     foldl (\<lambda>r (cookieName, v). res_cookie r cookieName (valueOf v) v) response cookies"

text \<open>
  The registry object \<open>Commands\<close> is an object literal, read as
  \<open>Commands[name]\<close>: the read finds its two own keys and, through the prototype
  chain, the members of \<open>Object.prototype\<close>. What is found is \<open>undefined\<close>, a
  function, or a value that cannot be called.

  Called as \<open>Commands[name](response, payload)\<close>, the inherited functions do this:
  \<open>__defineGetter__\<close> and \<open>__defineSetter__\<close> throw a \<open>TypeError\<close>, their second
  argument (the payload) not being a function; \<open>constructor\<close>, \<open>hasOwnProperty\<close>,
  \<open>isPrototypeOf\<close>, \<open>propertyIsEnumerable\<close>, \<open>toLocaleString\<close>, \<open>toString\<close>,
  \<open>valueOf\<close>, \<open>__lookupGetter__\<close> and \<open>__lookupSetter__\<close> return without a call
  on the response handle. \<open>__proto__\<close> reads as the object \<open>Object.prototype\<close>, which
  is not \<open>null\<close> and not a function.
\<close>

datatype member =
    Undefined
  | NotAFunction
  | Function "Response \<Rightarrow> payload \<Rightarrow> effect"

definition ObjectPrototype :: "string \<Rightarrow> member" where
  "ObjectPrototype n =
     (if n = ''__proto__'' then NotAFunction
      else if n \<in> set [''__defineGetter__'', ''__defineSetter__''] then
        Function (\<lambda>response p. Throws response (OtherError ''TypeError'' ''Expecting function''))
      else if n \<in> set [''constructor'', ''hasOwnProperty'', ''isPrototypeOf'',
                        ''propertyIsEnumerable'', ''toLocaleString'', ''toString'', ''valueOf'',
                        ''__lookupGetter__'', ''__lookupSetter__''] then
        Function (\<lambda>response p. Returns response)
      else Undefined)"

definition Commands :: "string \<Rightarrow> member" where
  "Commands n =
     (if n = ''setHeader'' then Function (\<lambda>response p. Returns (setHeader response p))
      else if n = ''setCookie'' then Function (\<lambda>response p. Returns (setCookie response p))
      else ObjectPrototype n)"

section \<open>sendResponse/SendResponse.ts\<close>

text \<open>
  Modelled from the spec: the declarations of \<open>ICommand\<close> and
  \<open>IApiRouteResponse\<close> belong to the handler core and are not part of the sources.
  A command is \<open>{name, adapters?, payload}\<close>; the code tests its \<open>adapters\<close> field
  three ways (\<open>Array.isArray\<close>, \<open>== null\<close>, \<open>=== ADAPTER_NAME\<close>), so the field
  is absent, one name, or a list of names. A canonical response holds a status code, a
  payload, an exit code and optional commands.
\<close>

datatype adaptersField =
    NoAdapters
  | AdapterName string
  | AdapterList "string list"

record ICommand =
  name :: string
  adapters :: adaptersField
  payload :: payload

text \<open>\<open>ICommand | ICommand[]\<close>, where at run time an array element may be an array again.\<close>

datatype commands =
    Cmd ICommand
  | Cmds "commands list"

record IApiRouteResponse =
  exitCode :: int
  status :: int
  responsePayload :: json
  commands :: "commands option"

fun isArray :: "adaptersField \<Rightarrow> bool" where
  "isArray (AdapterList xs) = True"
| "isArray _ = False"

fun includes_name :: "adaptersField \<Rightarrow> string \<Rightarrow> bool" where
  "includes_name (AdapterList xs) x = (x \<in> set xs)"
| "includes_name _ x = False"

text \<open>
  \<open>applyEach\<close> is the loop \<open>for (let command of commands)\<close>: an exception thrown
  for one element ends it.
\<close>

fun applyCommandsToResponse :: "Response \<Rightarrow> commands \<Rightarrow> effect"
  and applyEach :: "Response \<Rightarrow> commands list \<Rightarrow> effect" where
  "applyCommandsToResponse response (Cmds cs) = applyEach response cs"
| "applyCommandsToResponse response (Cmd c) =
     (if isArray (adapters c) \<and> \<not> includes_name (adapters c) ADAPTER_NAME then
        Returns response
      else if adapters c = NoAdapters \<or> adapters c = AdapterName ADAPTER_NAME then
        (case Commands (name c) of
           Undefined \<Rightarrow> Returns response
         | NotAFunction \<Rightarrow>
             Throws response
               (OtherError ''TypeError'' ''Commands[commands.name] is not a function'')
         | Function handler \<Rightarrow> handler response (payload c))
      else Returns response)"
| "applyEach response [] = Returns response"
| "applyEach response (command # cs) =
     (case applyCommandsToResponse response command of
        Returns response1 \<Rightarrow> applyEach response1 cs
      | Throws response1 thrown \<Rightarrow> Throws response1 thrown)"

definition SendResponse :: "IApiRouteResponse \<Rightarrow> Response \<Rightarrow> effect" where
  "SendResponse routeResp response =
     (let send = responsePayload routeResp;
          applied = (case commands routeResp of
                       Some cs \<Rightarrow> applyCommandsToResponse response cs
                     | None \<Rightarrow> Returns response)
      in case applied of
           Throws response1 thrown \<Rightarrow> Throws response1 thrown
         | Returns response1 \<Rightarrow>
             (let response2 =
                    res_setHeader response1 ''X-Exit-Code'' (NumberArg (exitCode routeResp))
              in Returns (res_send (res_status response2 (status routeResp)) send)))"

section \<open>errorHandler/ErrorHandler.ts\<close>

text \<open>
  One HTTP exchange as the adapter drives it: the response handle and the arguments the
  Express continuation \<open>next\<close> has been called with, oldest first.
\<close>

record exchange =
  response :: Response
  nextCalls :: "error list"

definition ErrorHandler :: "exchange \<Rightarrow> error \<Rightarrow> exchange" where
  "ErrorHandler x err =
     (if isApiError err then
        x\<lparr>response :=
            res_send (res_status (response x) (httpStatus err))
              (JObj [(''error'', JStr (message err))])\<rparr>
      else x\<lparr>nextCalls := nextCalls x @ [err]\<rparr>)"

section \<open>transformRequest/TransformRequest.ts\<close>

text \<open>
  The Express request, with the fields the normalizer reads. A header value is a
  string or an array of strings (Node's \<open>IncomingHttpHeaders\<close>); the other collections
  hold values of type \<open>any\<close>. Each collection lists the properties of the object in
  \<open>for .. in\<close> order.
\<close>

datatype headerValue =
    OneValue string
  | ManyValues "string list"

record Request =
  originalUrl :: string
  ips :: "string list"
  headers :: "(string \<times> headerValue) list"
  cookies :: "(string \<times> json) list"
  body :: "(string \<times> json) list"
  query :: "(string \<times> json) list"
  params :: "(string \<times> json) list"

text \<open>\<open>Array.prototype.join\<close>.\<close>

fun join :: "string list \<Rightarrow> string \<Rightarrow> string" where
  "join [] sep = []"
| "join [x] sep = x"
| "join (x # y # ys) sep = x @ sep @ join (y # ys) sep"

text \<open>
  The operand conversion of string \<open>+\<close>: \<open>undefined\<close> becomes the text
  \<open>undefined\<close>, an array its elements joined by commas.
\<close>

fun toString :: "headerValue option \<Rightarrow> string" where
  "toString None = ''undefined''"
| "toString (Some (OneValue s)) = s"
| "toString (Some (ManyValues xs)) = join xs '',''"

text \<open>\<open>a ?? b\<close>: \<open>b\<close> only when \<open>a\<close> is \<open>null\<close> or \<open>undefined\<close>.\<close>

fun nullish :: "'a option \<Rightarrow> 'a \<Rightarrow> 'a" where
  "nullish None b = b"
| "nullish (Some a) b = a"

fun headerJson :: "headerValue \<Rightarrow> json" where
  "headerJson (OneValue s) = JStr s"
| "headerJson (ManyValues xs) = JArr (map JStr xs)"

text \<open>
  The method tags \<open>'all'\<close>, \<open>'get'\<close>, \<open>'search'\<close>, \<open>'post'\<close>, \<open>'put'\<close>,
  \<open>'patch'\<close>, \<open>'delete'\<close>, \<open>'head'\<close>, \<open>'options'\<close>, \<open>'connect'\<close> and
  \<open>'trace'\<close>, and the origin tags \<open>'header'\<close>, \<open>'cookie'\<close>, \<open>'body'\<close>,
  \<open>'query'\<close> and \<open>'url'\<close> of \<open>add\<close>.
\<close>

datatype HTTPMethod =
    HTTP_all | HTTP_get | HTTP_search | HTTP_post | HTTP_put | HTTP_patch | HTTP_delete
  | HTTP_head | HTTP_options | HTTP_connect | HTTP_trace

datatype origin = FromHeader | FromCookie | FromBody | FromQuery | FromUrl

text \<open>
  Modelled from the spec: the class \<open>RouteRequest\<close> of the handler core is not part of
  the sources. The canonical request names the adapter, the original URL, a method tag
  and an identification string, and holds a parameter bag; the bag is kept as the
  \<open>add(name, value, origin)\<close> calls it received, oldest first.
\<close>

record IRouteRequest =
  adapter :: string
  requestUrl :: string
  requestMethod :: "HTTPMethod option"
  identification :: string
  parameters :: "(string \<times> json \<times> origin) list"

definition RouteRequest :: "string \<Rightarrow> string \<Rightarrow> IRouteRequest" where
  "RouteRequest adapterName u =
     \<lparr>adapter = adapterName, requestUrl = u, requestMethod = None,
      identification = [], parameters = []\<rparr>"

definition add :: "IRouteRequest \<Rightarrow> string \<Rightarrow> json \<Rightarrow> origin \<Rightarrow> IRouteRequest" where
  "add req n v from = req\<lparr>parameters := parameters req @ [(n, v, from)]\<rparr>"

text \<open>
  In the source the identification is \<open>ips.join(' - ') + " | " + headers["user-agent"] ??
  "UA-NOT-PROVIDED"\<close>; \<open>+\<close> binds tighter than \<open>??\<close>, so the left operand of
  \<open>??\<close> is the whole concatenation.
\<close>

definition TransformRequest :: "Request \<Rightarrow> IRouteRequest" where
  "TransformRequest request =
     (let req0 = RouteRequest ADAPTER_NAME (originalUrl request);
          requestIdentification =
            nullish
              (Some (join (ips request) '' - '' @ '' | ''
                     @ toString (map_of (headers request) ''user-agent'')))
              ''UA-NOT-PROVIDED'';
          req1 = req0\<lparr>identification := requestIdentification\<rparr>;
          req2 = foldl (\<lambda>r (headerName, v). add r headerName (headerJson v) FromHeader)
                   req1 (headers request);
          req3 = foldl (\<lambda>r (cookieName, v). add r cookieName v FromCookie)
                   req2 (cookies request);
          req4 = foldl (\<lambda>r (bodyName, v). add r bodyName v FromBody) req3 (body request);
          req5 = foldl (\<lambda>r (qsName, v). add r qsName v FromQuery) req4 (query request)
      in foldl (\<lambda>r (urlName, v). add r urlName v FromUrl) req5 (params request))"

section \<open>Adapter.ts: routes, events and the adapter's state\<close>

text \<open>
  Modelled from the spec: the declarations of \<open>HTTPMethod\<close>, \<open>IProxiedRoute\<close> and
  \<open>IContainer\<close> belong to the handler core and are not part of the sources. A route
  descriptor is a URL pattern with one or many method tags out of the eleven of the
  \<open>switch\<close> in \<open>addRouteToHttpMethod\<close>; a container exposes its routes as a
  sequence of descriptors. The adapter compares descriptors and containers by reference
  (\<open>Array.prototype.includes\<close>); \<open>routeRef\<close> and \<open>containerRef\<close> stand for the
  reference, so two descriptors with the same URL and methods can still be different
  objects.
\<close>

datatype methodsField =
    OneMethod HTTPMethod
  | ManyMethods "HTTPMethod list"

record IProxiedRoute =
  routeRef :: nat
  url :: string
  methods :: methodsField

record IContainer =
  containerRef :: nat
  allRoutes :: "IProxiedRoute list"

text \<open>
  The declaration of \<open>Events\<close> is not part of the sources; its members are known by
  the names the adapter emits them under. An emitted event is kept with the arguments of
  the \<open>emit\<close> call.
\<close>

datatype event =
    ALL_REQUEST IProxiedRoute
  | GET_REQUEST IProxiedRoute
  | POST_REQUEST IProxiedRoute
  | PUT_REQUEST IProxiedRoute
  | PATCH_REQUEST IProxiedRoute
  | DELETE_REQUEST IProxiedRoute
  | HEAD_REQUEST IProxiedRoute
  | OPTIONS_REQUEST IProxiedRoute
  | CONNECT_REQUEST IProxiedRoute
  | TRACE_REQUEST IProxiedRoute
  | REQUEST IProxiedRoute HTTPMethod
  | REQUEST_RESPONSE IApiRouteResponse IProxiedRoute
  | REQUEST_ERROR error IProxiedRoute Request

text \<open>
  The Express application, as far as the adapter drives it: the middleware installed
  with \<open>use\<close>, the settings disabled, and the routes bound. A binding
  \<open>(m, u, route)\<close> is the call \<open>express.m(u, handler)\<close> whose handler runs the
  request handler for \<open>route\<close> and \<open>m\<close>.
\<close>

record Application =
  middleware :: "string list"
  disabled :: "string list"
  bindings :: "(HTTPMethod \<times> string \<times> IProxiedRoute) list"

text \<open>The HTTP server \<open>express.listen\<close> returns, with the \<open>close()\<close> calls it received.\<close>

record Server =
  listenPort :: int
  closeCalls :: nat

text \<open>
  The business handler \<open>Maestro['handle']\<close> receives the route, the canonical request
  and two continuations; what it does to the adapter is the sequence of continuation
  calls it makes.
\<close>

datatype reply =
    Respond IApiRouteResponse
  | Fail error

type_synonym handle = "IProxiedRoute \<Rightarrow> IRouteRequest \<Rightarrow> reply list"

text \<open>
  The fields of the class; a leading underscore of the source is dropped, and
  \<open>_loadedRoutes\<close> is \<open>loaded\<close>. The replaceable normalizer may throw, the one
  installed at construction never does.
\<close>

record Adapter =
  express :: Application
  containers :: "IContainer list"
  port :: int
  booted :: bool
  started :: bool
  server :: "Server option"
  loaded :: "IProxiedRoute list"
  transformRequest :: "Request \<Rightarrow> error + IRouteRequest"
  sendResponse :: "IApiRouteResponse \<Rightarrow> Response \<Rightarrow> effect"
  errorHandler :: "exchange \<Rightarrow> error \<Rightarrow> exchange"
  apiHandler :: "handle option"
  emitted :: "event list"

definition emit :: "Adapter \<Rightarrow> event \<Rightarrow> Adapter" where
  "emit a e = a\<lparr>emitted := emitted a @ [e]\<rparr>"

definition onPort :: "Adapter \<Rightarrow> int \<Rightarrow> Adapter" where
  "onPort a p = (if started a then a else a\<lparr>port := p\<rparr>)"

text \<open>
  The constructor. The initialiser of \<open>_port\<close> reads the environment; the constructor
  then calls \<open>onPort(port ?? DEFAULT_PORT)\<close> on the adapter, not yet started, so the
  initial value never shows.
\<close>

definition newAdapter :: "int option \<Rightarrow> Adapter" where
  "newAdapter p =
     onPort
       \<lparr>express = \<lparr>middleware = [], disabled = [], bindings = []\<rparr>,
        containers = [], port = 3333, booted = False, started = False, server = None,
        loaded = [], transformRequest = (\<lambda>request. Inr (TransformRequest request)),
        sendResponse = SendResponse, errorHandler = ErrorHandler, apiHandler = None,
        emitted = []\<rparr>
       (nullish p DEFAULT_PORT)"

definition setTransformRequestFunction ::
  "Adapter \<Rightarrow> (Request \<Rightarrow> error + IRouteRequest) \<Rightarrow> Adapter" where
  "setTransformRequestFunction a func = a\<lparr>transformRequest := func\<rparr>"

definition setSendResponseFunction ::
  "Adapter \<Rightarrow> (IApiRouteResponse \<Rightarrow> Response \<Rightarrow> effect) \<Rightarrow> Adapter" where
  "setSendResponseFunction a func = a\<lparr>sendResponse := func\<rparr>"

definition setErrorHanlder :: "Adapter \<Rightarrow> (exchange \<Rightarrow> error \<Rightarrow> exchange) \<Rightarrow> Adapter" where
  "setErrorHanlder a handler = a\<lparr>errorHandler := handler\<rparr>"

definition setRequestHandler :: "Adapter \<Rightarrow> handle \<Rightarrow> Adapter" where
  "setRequestHandler a handler = a\<lparr>apiHandler := Some handler\<rparr>"

definition addContainer :: "Adapter \<Rightarrow> IContainer \<Rightarrow> Adapter" where
  "addContainer a container =
     (if container \<in> set (containers a) then a
      else a\<lparr>containers := containers a @ [container]\<rparr>)"

section \<open>Adapter.ts: route registration\<close>

text \<open>
  \<open>String.prototype.trim\<close> and \<open>charAt\<close>. A \<open>char\<close> is a code unit below 256; the
  white space and line terminators of ECMAScript in that range are the code units 9 to
  13, 32 and 160.
\<close>

definition isWhiteSpace :: "char \<Rightarrow> bool" where
  "isWhiteSpace c = ((of_char c :: nat) \<in> {9, 10, 11, 12, 13, 32, 160})"

definition trim :: "string \<Rightarrow> string" where
  "trim s = rev (dropWhile isWhiteSpace (rev (dropWhile isWhiteSpace s)))"

definition charAt :: "string \<Rightarrow> nat \<Rightarrow> string" where
  "charAt s i = take 1 (drop i s)"

definition bind :: "Adapter \<Rightarrow> HTTPMethod \<Rightarrow> string \<Rightarrow> IProxiedRoute \<Rightarrow> Adapter" where
  "bind a m u route =
     a\<lparr>express := (express a)\<lparr>bindings := bindings (express a) @ [(m, u, route)]\<rparr>\<rparr>"

text \<open>The \<open>switch\<close> over the method tag; the \<open>search\<close> case emits \<open>GET_REQUEST\<close>.\<close>

fun bindMethod :: "Adapter \<Rightarrow> HTTPMethod \<Rightarrow> string \<Rightarrow> IProxiedRoute \<Rightarrow> Adapter" where
  "bindMethod a HTTP_all u route = emit (bind a HTTP_all u route) (ALL_REQUEST route)"
| "bindMethod a HTTP_get u route = emit (bind a HTTP_get u route) (GET_REQUEST route)"
| "bindMethod a HTTP_search u route = emit (bind a HTTP_search u route) (GET_REQUEST route)"
| "bindMethod a HTTP_post u route = emit (bind a HTTP_post u route) (POST_REQUEST route)"
| "bindMethod a HTTP_put u route = emit (bind a HTTP_put u route) (PUT_REQUEST route)"
| "bindMethod a HTTP_patch u route = emit (bind a HTTP_patch u route) (PATCH_REQUEST route)"
| "bindMethod a HTTP_delete u route = emit (bind a HTTP_delete u route) (DELETE_REQUEST route)"
| "bindMethod a HTTP_head u route = emit (bind a HTTP_head u route) (HEAD_REQUEST route)"
| "bindMethod a HTTP_options u route = emit (bind a HTTP_options u route) (OPTIONS_REQUEST route)"
| "bindMethod a HTTP_connect u route = emit (bind a HTTP_connect u route) (CONNECT_REQUEST route)"
| "bindMethod a HTTP_trace u route = emit (bind a HTTP_trace u route) (TRACE_REQUEST route)"

definition addRouteToHttpMethod :: "Adapter \<Rightarrow> HTTPMethod \<Rightarrow> IProxiedRoute \<Rightarrow> Adapter" where
  "addRouteToHttpMethod a method route =
     (let u = (if charAt (trim (url route)) 0 \<noteq> ''/'' then ''/'' @ trim (url route)
               else trim (url route))
      in emit (bindMethod a method u route) (REQUEST route method))"

fun methodsOf :: "methodsField \<Rightarrow> HTTPMethod list" where
  "methodsOf (OneMethod m) = [m]"
| "methodsOf (ManyMethods ms) = ms"

text \<open>The body of the inner loop of \<open>loadRoutesFromContainers\<close>, for one route.\<close>

definition loadRoute :: "Adapter \<Rightarrow> IProxiedRoute \<Rightarrow> Adapter" where
  "loadRoute a route =
     (if route \<in> set (loaded a) then a
      else
        let a1 = foldl (\<lambda>b method. addRouteToHttpMethod b method route) a
                   (methodsOf (methods route))
        in a1\<lparr>loaded := loaded a1 @ [route]\<rparr>)"

definition loadRoutesFromContainers :: "Adapter \<Rightarrow> IContainer list \<Rightarrow> Adapter" where
  "loadRoutesFromContainers a cs =
     foldl (\<lambda>b container. foldl loadRoute b (allRoutes container)) a cs"

text \<open>
  The object \<open>loadedRoutes()\<close> returns starts as \<open>{}\<close>: its own properties, in
  the order they were created, and its prototype, \<open>Object.prototype\<close> (\<open>None\<close>) until
  it is replaced. The assignment \<open>loaded[k] = route\<close> creates or overwrites the own
  property \<open>k\<close>, except for \<open>k = '__proto__'\<close>: that runs the setter inherited from
  \<open>Object.prototype\<close>, which makes the descriptor the prototype of the object and
  creates no property. Descriptors are taken to be ordinary objects with writable data
  properties, so a prototype replaced this way does not stand in the way of later
  assignments.
\<close>

record RoutesByURL =
  entries :: "(string \<times> IProxiedRoute) list"
  prototype :: "IProxiedRoute option"

definition assign :: "RoutesByURL \<Rightarrow> string \<Rightarrow> IProxiedRoute \<Rightarrow> RoutesByURL" where
  "assign ld k route =
     (if k = ''__proto__'' then ld\<lparr>prototype := Some route\<rparr>
      else ld\<lparr>entries := AList.update k route (entries ld)\<rparr>)"

definition loadedRoutes :: "Adapter \<Rightarrow> RoutesByURL" where
  "loadedRoutes a =
     foldl (\<lambda>ld route. assign ld (url route) route) \<lparr>entries = [], prototype = None\<rparr>
       (loaded a)"

section \<open>Adapter.ts: lifecycle\<close>

text \<open>
  \<open>boot\<close> installs the body and cookie parsers, disables \<open>x-powered-by\<close> and loads
  the routes of the known containers; the lines it prints to the console are left out.
\<close>

definition use :: "Adapter \<Rightarrow> string \<Rightarrow> Adapter" where
  "use a mw = a\<lparr>express := (express a)\<lparr>middleware := middleware (express a) @ [mw]\<rparr>\<rparr>"

definition disable :: "Adapter \<Rightarrow> string \<Rightarrow> Adapter" where
  "disable a setting =
     a\<lparr>express := (express a)\<lparr>disabled := disabled (express a) @ [setting]\<rparr>\<rparr>"

definition boot :: "Adapter \<Rightarrow> Adapter" where
  "boot a =
     (if booted a then a
      else
        let a1 = use a ''bodyParser.json'';
            a2 = use a1 ''bodyParser.urlencoded'';
            a3 = use a2 ''cookieParser'';
            a4 = disable a3 ''x-powered-by'';
            a5 = loadRoutesFromContainers a4 (containers a4)
        in a5\<lparr>booted := True\<rparr>)"

definition listen :: "int \<Rightarrow> Server" where
  "listen p = \<lparr>listenPort = p, closeCalls = 0\<rparr>"

definition close :: "Server \<Rightarrow> Server" where
  "close srv = srv\<lparr>closeCalls := Suc (closeCalls srv)\<rparr>"

definition start :: "Adapter \<Rightarrow> Adapter" where
  "start a =
     (let a1 = boot a;
          a2 = a1\<lparr>server := Some (listen (port a1))\<rparr>
      in a2\<lparr>started := True\<rparr>)"

text \<open>
  \<open>this._server!.close()\<close>: with no server object the call throws a \<open>TypeError\<close>.
\<close>

definition stop :: "Adapter \<Rightarrow> error + Adapter" where
  "stop a =
     (if started a then
        (case server a of
           None \<Rightarrow> Inl (OtherError ''TypeError'' ''Cannot read properties of undefined'')
         | Some srv \<Rightarrow> Inr (a\<lparr>server := Some (close srv), started := False\<rparr>))
      else Inr a)"

section \<open>Adapter.ts: the request handler\<close>

text \<open>
  The outcome of the asynchronous \<open>_requestHandler\<close>: its promise resolves, or rejects
  with what was thrown. \<open>RequestFlowNotDefined\<close> is a class of the handler core; its
  constructor is a parameter.
\<close>

datatype completion =
    Resolved
  | Rejected error

text \<open>
  The two continuations handed to the business handler. An exception of the response
  materializer leaves the success continuation before \<open>REQUEST_RESPONSE\<close> is emitted
  and passes to the business handler that called it.
\<close>

definition onReply ::
  "IProxiedRoute \<Rightarrow> Request \<Rightarrow> Adapter \<times> exchange \<Rightarrow> reply \<Rightarrow> Adapter \<times> exchange" where
  "onReply route request ax r =
     (case r of
        Respond routeResp \<Rightarrow>
          (case sendResponse (fst ax) routeResp (response (snd ax)) of
             Returns response1 \<Rightarrow>
               (emit (fst ax) (REQUEST_RESPONSE routeResp route),
                (snd ax)\<lparr>response := response1\<rparr>)
           | Throws response1 thrown \<Rightarrow> (fst ax, (snd ax)\<lparr>response := response1\<rparr>))
      | Fail err \<Rightarrow>
          (emit (fst ax) (REQUEST_ERROR err route request),
           errorHandler (fst ax) (snd ax) err))"

definition requestHandler ::
  "(string \<Rightarrow> error) \<Rightarrow> Adapter \<Rightarrow> IProxiedRoute \<Rightarrow> HTTPMethod \<Rightarrow> Request \<Rightarrow> exchange
     \<Rightarrow> completion \<times> Adapter \<times> exchange" where
  "requestHandler RequestFlowNotDefined a route method request x =
     (let ax1 =
            (case apiHandler a of
               None \<Rightarrow>
                 (let err = RequestFlowNotDefined
                       ''Express adapter does not have an associated api request handler''
                  in (emit a (REQUEST_ERROR err route request), errorHandler a x err))
             | Some h \<Rightarrow> (a, x))
      in case transformRequest (fst ax1) request of
           Inl thrown \<Rightarrow> (Rejected thrown, ax1)
         | Inr apiRequest0 \<Rightarrow>
             (let apiRequest = apiRequest0\<lparr>requestMethod := Some method\<rparr>
              in case apiHandler (fst ax1) of
                   None \<Rightarrow>
                     (Rejected (OtherError ''TypeError'' ''this._apiHandler is not a function''),
                      ax1)
                 | Some h \<Rightarrow>
                     (Resolved, foldl (onReply route request) ax1 (h route apiRequest))))"

section \<open>Notions used to state the properties\<close>

text \<open>The commands of a nested command list, in the order given.\<close>

fun flatten :: "commands \<Rightarrow> ICommand list" where
  "flatten (Cmd c) = [c]"
| "flatten (Cmds cs) = concat (map flatten cs)"

text \<open>
  A command is for this adapter, as the executor reads the \<open>adapters\<close> field, when the
  field is absent or is the adapter's name as one string.
\<close>

definition forThisAdapter :: "ICommand \<Rightarrow> bool" where
  "forThisAdapter c = (adapters c = NoAdapters \<or> adapters c = AdapterName ''Express'')"

text \<open>
  The calls on the response handle that running one command stands for: one
  \<open>setHeader\<close> call for each entry of a \<open>setHeader\<close> payload, one \<open>cookie\<close> call
  for each entry of a \<open>setCookie\<close> payload, and none for any other name or for a
  command that is not for this adapter.
\<close>

definition expectedCalls :: "ICommand \<Rightarrow> call list" where
  "expectedCalls c =
     (if forThisAdapter c \<and> name c = ''setHeader'' then
        map (\<lambda>(headerName, v). Call_setHeader headerName (EntryArg v)) (payload c)
      else if forThisAdapter c \<and> name c = ''setCookie'' then
        map (\<lambda>(cookieName, v). Call_cookie cookieName (valueOf v) v) (payload c)
      else [])"

text \<open>The commands on which the executor throws, and what it throws.\<close>

definition throwing :: "ICommand \<Rightarrow> bool" where
  "throwing c =
     (forThisAdapter c
      \<and> name c \<in> set [''__proto__'', ''__defineGetter__'', ''__defineSetter__''])"

definition thrownBy :: "ICommand \<Rightarrow> error" where
  "thrownBy c =
     (if name c = ''__proto__'' then
        OtherError ''TypeError'' ''Commands[commands.name] is not a function''
      else OtherError ''TypeError'' ''Expecting function'')"

text \<open>
  Running a sequence of commands in order: the calls of each command are added to the
  handle until a command throws.
\<close>

fun executorOutcome :: "Response \<Rightarrow> ICommand list \<Rightarrow> effect" where
  "executorOutcome res [] = Returns res"
| "executorOutcome res (c # cs) =
     (if throwing c then Throws res (thrownBy c)
      else executorOutcome (res @ expectedCalls c) cs)"

text \<open>The collection of the raw request that an origin tag names, as name/value pairs.\<close>

fun fromOrigin :: "Request \<Rightarrow> origin \<Rightarrow> (string \<times> json) list" where
  "fromOrigin request FromHeader = map (\<lambda>(n, v). (n, headerJson v)) (headers request)"
| "fromOrigin request FromCookie = cookies request"
| "fromOrigin request FromBody = body request"
| "fromOrigin request FromQuery = query request"
| "fromOrigin request FromUrl = params request"


section \<open>The command executor and the response materializer\<close>

lemma foldl_snoc_map: "foldl (\<lambda>r x. r @ [f x]) res xs = res @ map f xs"
  by (induction xs arbitrary: res) simp_all

lemma setHeader_calls:
  "setHeader res p = res @ map (\<lambda>(headerName, v). Call_setHeader headerName (EntryArg v)) p"
proof -
  have "(\<lambda>r (headerName, v). res_setHeader r headerName (EntryArg v))
          = (\<lambda>r x. r @ [(\<lambda>(headerName, v). Call_setHeader headerName (EntryArg v)) x])"
    by (simp add: fun_eq_iff res_setHeader_def)
  then show ?thesis
    by (simp only: setHeader_def foldl_snoc_map)
qed

lemma setCookie_calls:
  "setCookie res p = res @ map (\<lambda>(cookieName, v). Call_cookie cookieName (valueOf v) v) p"
proof -
  have "(\<lambda>r (cookieName, v). res_cookie r cookieName (valueOf v) v)
          = (\<lambda>r x. r @ [(\<lambda>(cookieName, v). Call_cookie cookieName (valueOf v) v) x])"
    by (simp add: fun_eq_iff res_cookie_def)
  then show ?thesis
    by (simp only: setCookie_def foldl_snoc_map)
qed

lemma executorOutcome_append:
  "executorOutcome res (xs @ ys)
     = (case executorOutcome res xs of
          Returns res1 \<Rightarrow> executorOutcome res1 ys
        | Throws res1 thrown \<Rightarrow> Throws res1 thrown)"
  by (induction xs arbitrary: res) simp_all

lemma applyCommand_outcome:
  "applyCommandsToResponse res (Cmd c) = executorOutcome res [c]"
proof (cases "forThisAdapter c")
  case False
  then show ?thesis
    by (auto simp: forThisAdapter_def ADAPTER_NAME_def throwing_def expectedCalls_def)
next
  case True
  then have gate: "\<not> (isArray (adapters c) \<and> \<not> includes_name (adapters c) ADAPTER_NAME)"
    and run: "adapters c = NoAdapters \<or> adapters c = AdapterName ADAPTER_NAME"
    by (auto simp: forThisAdapter_def ADAPTER_NAME_def)
  show ?thesis
    using True
    by (simp add: gate run Commands_def ObjectPrototype_def throwing_def thrownBy_def
          expectedCalls_def setHeader_calls setCookie_calls)
qed

lemma applyCommands_outcome:
  "applyCommandsToResponse res cs = executorOutcome res (flatten cs)"
  "applyEach res css = executorOutcome res (concat (map flatten css))"
proof (induction res cs and res css rule: applyCommandsToResponse_applyEach.induct)
  case (1 response cs)
  then show ?case by simp
next
  case (2 response c)
  show ?case by (simp only: applyCommand_outcome flatten.simps)
next
  case (3 response)
  then show ?case by simp
next
  case (4 response command cs)
  show ?case
    by (simp add: "4.IH"(1) executorOutcome_append split: effect.splits)
       (simp add: "4.IH"(2) "4.IH"(1))
qed

lemma executorOutcome_no_throw:
  "list_all (\<lambda>c. \<not> throwing c) xs \<Longrightarrow>
   executorOutcome res xs = Returns (res @ concat (map expectedCalls xs))"
  by (induction xs arbitrary: res) simp_all

text \<open>
  What \<open>SendResponse\<close> does in general. The executor runs the commands of the nested
  list in the order given; when one throws, the exception leaves \<open>SendResponse\<close> with
  the calls made so far; otherwise \<open>setHeader('X-Exit-Code', exitCode)\<close>,
  \<open>status(status)\<close> and \<open>send(payload)\<close> follow, in this order.
\<close>

lemma SendResponse_outcome:
  "SendResponse routeResp res =
     (case executorOutcome res
             (case commands routeResp of None \<Rightarrow> [] | Some cs \<Rightarrow> flatten cs) of
        Throws res1 thrown \<Rightarrow> Throws res1 thrown
      | Returns res1 \<Rightarrow>
          Returns (res1 @ [Call_setHeader ''X-Exit-Code'' (NumberArg (exitCode routeResp)),
                           Call_status (status routeResp),
                           Call_send (responsePayload routeResp)]))"
  by (simp add: SendResponse_def Let_def applyCommands_outcome res_setHeader_def
        res_status_def res_send_def split: option.splits effect.splits)

lemma SendResponse_calls_when_no_command_throws:
  "list_all (\<lambda>c. \<not> throwing c)
     (case commands routeResp of None \<Rightarrow> [] | Some cs \<Rightarrow> flatten cs) \<Longrightarrow>
   SendResponse routeResp res =
     Returns (res
       @ concat (map expectedCalls
                   (case commands routeResp of None \<Rightarrow> [] | Some cs \<Rightarrow> flatten cs))
       @ [Call_setHeader ''X-Exit-Code'' (NumberArg (exitCode routeResp)),
          Call_status (status routeResp),
          Call_send (responsePayload routeResp)])"
  by (simp add: SendResponse_outcome executorOutcome_no_throw)

text \<open>
  Claim C3, at a canonical response with exit code 7, status 200, payload
  \<open>{ok: true}\<close> and the one command \<open>{name: '__proto__', payload: {}}\<close>: the test
  \<open>Commands[commands.name] != null\<close> finds the inherited \<open>__proto__\<close>, the call
  throws a \<open>TypeError\<close>, and \<open>SendResponse\<close> ends without the exit-code header, the
  status and the body. With a command of the unknown name \<open>unknown\<close> in its place the
  three calls are made.
\<close>

theorem SendResponse_command_named_proto:
  "SendResponse
     \<lparr>exitCode = 7, status = 200, responsePayload = JObj [(''ok'', JBool True)],
      commands = Some (Cmd \<lparr>name = ''__proto__'', adapters = NoAdapters, payload = []\<rparr>)\<rparr>
     []
     = Throws [] (OtherError ''TypeError'' ''Commands[commands.name] is not a function'')
   \<and> SendResponse
       \<lparr>exitCode = 7, status = 200, responsePayload = JObj [(''ok'', JBool True)],
        commands = Some (Cmd \<lparr>name = ''unknown'', adapters = NoAdapters, payload = []\<rparr>)\<rparr>
       []
     = Returns [Call_setHeader ''X-Exit-Code'' (NumberArg 7), Call_status 200,
                Call_send (JObj [(''ok'', JBool True)])]"
  by (simp add: SendResponse_def Let_def Commands_def ObjectPrototype_def res_setHeader_def
        res_status_def res_send_def)

text \<open>
  Claim C1, at a command whose \<open>adapters\<close> field is the list \<open>["Express"]\<close>: the
  command executor makes no call on the response handle, although \<open>setHeader\<close> is in
  the registry; the same command without an \<open>adapters\<close> field sets the header. The
  second test of the source compares the field with the adapter's name by \<open>===\<close>,
  which no array satisfies.
\<close>

theorem applyCommands_adapter_list_naming_Express:
  "applyCommandsToResponse []
     (Cmd \<lparr>name = ''setHeader'', adapters = AdapterList [''Express''],
           payload = [(''X-Test'', StringEntry ''1'')]\<rparr>) = Returns []
   \<and> applyCommandsToResponse []
     (Cmd \<lparr>name = ''setHeader'', adapters = NoAdapters,
           payload = [(''X-Test'', StringEntry ''1'')]\<rparr>)
     = Returns [Call_setHeader ''X-Test'' (EntryArg (StringEntry ''1''))]"
  by (simp add: ADAPTER_NAME_def Commands_def setHeader_def res_setHeader_def)

text \<open>
  What the command executor does for one command, by the shape of its \<open>adapters\<close>
  field: a list never reaches the registry, whether it names the adapter or not; an
  absent field or the adapter's name as a single string reaches what \<open>Commands[name]\<close>
  finds, and the response handle is left alone when that is \<open>undefined\<close>.
\<close>

lemma applyCommands_adapter_list:
  "adapters c = AdapterList xs \<Longrightarrow> applyCommandsToResponse res (Cmd c) = Returns res"
  by simp

lemma applyCommands_no_adapters:
  "adapters c = NoAdapters \<Longrightarrow> Commands (name c) = Function handler \<Longrightarrow>
   applyCommandsToResponse res (Cmd c) = handler res (payload c)"
  by simp

lemma applyCommands_adapter_name:
  "adapters c = AdapterName ADAPTER_NAME \<Longrightarrow> Commands (name c) = Function handler \<Longrightarrow>
   applyCommandsToResponse res (Cmd c) = handler res (payload c)"
  by simp

lemma applyCommands_other_adapter_name:
  "adapters c = AdapterName n \<Longrightarrow> n \<noteq> ADAPTER_NAME \<Longrightarrow>
   applyCommandsToResponse res (Cmd c) = Returns res"
  by simp

lemma applyCommands_unknown_name:
  "Commands (name c) = Undefined \<Longrightarrow> applyCommandsToResponse res (Cmd c) = Returns res"
  by simp

section \<open>The request normalizer\<close>

text \<open>
  Claim C2, at a request with two client addresses and no \<open>user-agent\<close> header: the
  identification ends in the text \<open>undefined\<close>, not in \<open>UA-NOT-PROVIDED\<close>.
\<close>

theorem TransformRequest_identification_without_user_agent:
  "identification
     (TransformRequest
        \<lparr>originalUrl = ''/users'', ips = [''10.0.0.1'', ''10.0.0.2''], headers = [],
         cookies = [], body = [], query = [], params = []\<rparr>)
     = ''10.0.0.1 - 10.0.0.2 | undefined''"
  by (simp add: TransformRequest_def Let_def RouteRequest_def)

lemma parameters_foldl_add:
  "parameters (foldl (\<lambda>r (n, v). add r n (g v) from) req xs)
     = parameters req @ map (\<lambda>(n, v). (n, g v, from)) xs"
  by (induction xs arbitrary: req) (simp_all add: add_def split: prod.splits)

lemma parameters_foldl_add_id:
  "parameters (foldl (\<lambda>r (n, v). add r n v from) req xs)
     = parameters req @ map (\<lambda>(n, v). (n, v, from)) xs"
  using parameters_foldl_add [where g = "\<lambda>v. v"] by simp

lemma parameters_TransformRequest:
  "parameters (TransformRequest request)
     = map (\<lambda>(n, v). (n, headerJson v, FromHeader)) (headers request)
       @ map (\<lambda>(n, v). (n, v, FromCookie)) (cookies request)
       @ map (\<lambda>(n, v). (n, v, FromBody)) (body request)
       @ map (\<lambda>(n, v). (n, v, FromQuery)) (query request)
       @ map (\<lambda>(n, v). (n, v, FromUrl)) (params request)"
  by (simp add: TransformRequest_def Let_def parameters_foldl_add parameters_foldl_add_id
        RouteRequest_def)

lemma identification_foldl_add:
  "identification (foldl (\<lambda>r (n, v). add r n (g v) from) req xs) = identification req"
  by (induction xs arbitrary: req) (simp_all add: add_def split: prod.splits)

lemma identification_foldl_add_id:
  "identification (foldl (\<lambda>r (n, v). add r n v from) req xs) = identification req"
  using identification_foldl_add [where g = "\<lambda>v. v"] by simp

text \<open>
  The identification in general: the client addresses joined by \<open>' - '\<close>, then
  \<open>' | '\<close>, then the \<open>user-agent\<close> header converted to a string.
\<close>

lemma TransformRequest_identification:
  "identification (TransformRequest request)
     = join (ips request) '' - '' @ '' | '' @ toString (map_of (headers request) ''user-agent'')"
  by (simp add: TransformRequest_def Let_def RouteRequest_def identification_foldl_add
        identification_foldl_add_id)

text \<open>
  Claim C7. A triple of name, value and origin tag is in the parameter bag of the
  canonical request exactly when the name and value are in the collection of the raw
  request that the tag names: every header, cookie, body field, query parameter and URL
  parameter is in the bag under its own tag, and nothing is in the bag under a tag whose
  collection does not hold it.
\<close>

theorem TransformRequest_parameters:
  "((n, v, from) \<in> set (parameters (TransformRequest request)))
     = ((n, v) \<in> set (fromOrigin request from))"
  by (cases "from") (auto simp: parameters_TransformRequest)

section \<open>The error translator\<close>

text \<open>
  Claim C4. For an API error the translator calls \<open>status(httpStatus)\<close> and
  \<open>send({error: message})\<close> on the response handle and does not call the
  continuation; for any other error it calls the continuation with the error and makes
  no call on the response handle.
\<close>

theorem ErrorHandler_translates:
  "(isApiError err \<longrightarrow>
      response (ErrorHandler x err)
        = response x @ [Call_status (httpStatus err),
                        Call_send (JObj [(''error'', JStr (message err))])]
      \<and> nextCalls (ErrorHandler x err) = nextCalls x)
   \<and> (\<not> isApiError err \<longrightarrow>
      nextCalls (ErrorHandler x err) = nextCalls x @ [err]
      \<and> response (ErrorHandler x err) = response x)"
  by (simp add: ErrorHandler_def res_send_def res_status_def)

theorem ErrorHandler_translates_witness:
  "isApiError (ApiError 404 ''not found'')
   \<and> response (ErrorHandler \<lparr>response = [], nextCalls = []\<rparr> (ApiError 404 ''not found''))
       = [Call_status 404, Call_send (JObj [(''error'', JStr ''not found'')])]
   \<and> nextCalls (ErrorHandler \<lparr>response = [], nextCalls = []\<rparr> (ApiError 404 ''not found'')) = []
   \<and> \<not> isApiError (OtherError ''Error'' ''boom'')
   \<and> nextCalls (ErrorHandler \<lparr>response = [], nextCalls = []\<rparr> (OtherError ''Error'' ''boom''))
       = [OtherError ''Error'' ''boom'']
   \<and> response (ErrorHandler \<lparr>response = [], nextCalls = []\<rparr> (OtherError ''Error'' ''boom'')) = []"
  using ErrorHandler_translates [of "ApiError 404 ''not found''" "\<lparr>response = [], nextCalls = []\<rparr>"]
        ErrorHandler_translates [of "OtherError ''Error'' ''boom''" "\<lparr>response = [], nextCalls = []\<rparr>"]
  by simp

section \<open>Route registration\<close>

lemma bindings_bindMethod:
  "bindings (express (bindMethod a m u r)) = bindings (express a) @ [(m, u, r)]"
  by (cases m) (simp_all add: emit_def bind_def)

lemma bindings_addRoute:
  "bindings (express (addRouteToHttpMethod a m r))
     = bindings (express a)
       @ [(m, if take 1 (trim (url r)) = ''/'' then trim (url r) else ''/'' @ trim (url r), r)]"
  by (simp add: addRouteToHttpMethod_def Let_def emit_def bindings_bindMethod charAt_def)

lemma take1_dropWhile: "list_all (\<lambda>c. \<not> P c) (take 1 (dropWhile P xs))"
  by (induction xs) simp_all

lemma trim_decomposition:
  "s = takeWhile isWhiteSpace s @ trim s
         @ rev (takeWhile isWhiteSpace (rev (dropWhile isWhiteSpace s)))"
proof -
  let ?d = "dropWhile isWhiteSpace s"
  have "rev (takeWhile isWhiteSpace (rev ?d) @ dropWhile isWhiteSpace (rev ?d))
          = rev (dropWhile isWhiteSpace (rev ?d)) @ rev (takeWhile isWhiteSpace (rev ?d))"
    by (rule rev_append)
  moreover have "rev (takeWhile isWhiteSpace (rev ?d) @ dropWhile isWhiteSpace (rev ?d)) = ?d"
    by simp
  ultimately have "?d = trim s @ rev (takeWhile isWhiteSpace (rev ?d))"
    by (simp only: trim_def)
  moreover have "s = takeWhile isWhiteSpace s @ ?d"
    by simp
  ultimately show ?thesis by simp
qed

lemma trim_last: "list_all (\<lambda>c. \<not> isWhiteSpace c) (take 1 (rev (trim s)))"
  by (simp only: trim_def rev_rev_ident take1_dropWhile)

lemma trim_first: "list_all (\<lambda>c. \<not> isWhiteSpace c) (take 1 (trim s))"
proof (cases "trim s")
  case Nil
  then show ?thesis by simp
next
  case (Cons c cs)
  let ?d = "dropWhile isWhiteSpace s"
  have "?d = trim s @ rev (takeWhile isWhiteSpace (rev ?d))"
    using trim_decomposition [of s] by (metis append_eq_append_conv takeWhile_dropWhile_id)
  with Cons have d: "?d = c # (cs @ rev (takeWhile isWhiteSpace (rev ?d)))"
    by simp
  then have "\<not> isWhiteSpace c"
    using hd_dropWhile [of isWhiteSpace s] by (metis list.sel(1) list.distinct(1))
  with Cons show ?thesis by simp
qed

text \<open>
  Claim C10. Binding a route for a method adds one binding to the transport, whose URL
  is the trimmed URL of the descriptor when that begins with \<open>/\<close> and the trimmed
  URL with \<open>/\<close> in front otherwise. The trimmed URL is the descriptor's URL
  without a leading and a trailing run of white space, and neither begins nor ends with
  white space.
\<close>

theorem addRouteToHttpMethod_url:
  "bindings (express (addRouteToHttpMethod a m route))
     = bindings (express a)
       @ [(m, if take 1 (trim (url route)) = ''/'' then trim (url route)
              else ''/'' @ trim (url route), route)]
   \<and> (\<exists>before after. url route = before @ trim (url route) @ after
         \<and> list_all isWhiteSpace before \<and> list_all isWhiteSpace after)
   \<and> list_all (\<lambda>c. \<not> isWhiteSpace c)
         (take 1 (trim (url route)) @ take 1 (rev (trim (url route))))"
proof -
  have "\<exists>before after. url route = before @ trim (url route) @ after
         \<and> list_all isWhiteSpace before \<and> list_all isWhiteSpace after"
  proof (intro exI conjI)
    show "url route = takeWhile isWhiteSpace (url route) @ trim (url route)
            @ rev (takeWhile isWhiteSpace (rev (dropWhile isWhiteSpace (url route))))"
      by (rule trim_decomposition)
    show "list_all isWhiteSpace (takeWhile isWhiteSpace (url route))"
      by (simp add: list_all_iff) (meson set_takeWhileD)
    show "list_all isWhiteSpace
            (rev (takeWhile isWhiteSpace (rev (dropWhile isWhiteSpace (url route)))))"
      by (simp add: list_all_iff) (meson set_takeWhileD)
  qed
  then show ?thesis
    using trim_first [of "url route"] trim_last [of "url route"]
    by (simp add: bindings_addRoute)
qed






lemma assign_entries:
  "map_of (entries (assign ld k route)) u
     = (if u = k \<and> k \<noteq> ''__proto__'' then Some route else map_of (entries ld) u)"
  by (simp add: assign_def update_conv')

lemma map_of_entries_foldl_assign:
  "map_of (entries (foldl (\<lambda>ld route. assign ld (url route) route) acc rs)) u
     = (if u = ''__proto__'' then map_of (entries acc) u
        else case find (\<lambda>route. url route = u) (rev rs) of
               Some r \<Rightarrow> Some r
             | None \<Rightarrow> map_of (entries acc) u)"
proof (induction rs rule: rev_induct)
  case Nil
  then show ?case by simp
next
  case (snoc x xs)
  then show ?case by (auto simp: assign_entries)
qed

lemma prototype_foldl_assign:
  "prototype (foldl (\<lambda>ld route. assign ld (url route) route) acc rs)
     = (case find (\<lambda>route. url route = ''__proto__'') (rev rs) of
          Some r \<Rightarrow> Some r
        | None \<Rightarrow> prototype acc)"
proof (induction rs rule: rev_induct)
  case Nil
  then show ?case by simp
next
  case (snoc x xs)
  then show ?case by (simp add: assign_def)
qed

text \<open>
  What \<open>loadedRoutes()\<close> holds in general: under a URL other than \<open>__proto__\<close> the
  last descriptor with that URL in the list of loaded routes; no key \<open>__proto__\<close>;
  and as prototype the last loaded descriptor whose URL is \<open>__proto__\<close>. A descriptor
  not yet loaded is put at the end of the list when it is registered.
\<close>

lemma loadedRoutes_entries:
  "map_of (entries (loadedRoutes a)) u
     = (if u = ''__proto__'' then None
        else find (\<lambda>route. url route = u) (rev (loaded a)))"
  by (simp add: loadedRoutes_def map_of_entries_foldl_assign split: option.splits)

lemma loadedRoutes_prototype:
  "prototype (loadedRoutes a) = find (\<lambda>route. url route = ''__proto__'') (rev (loaded a))"
  by (simp add: loadedRoutes_def prototype_foldl_assign split: option.splits)













section \<open>Lifecycle\<close>

text \<open>
  Claim C8. \<open>stop()\<close> on an adapter that is not started returns it unchanged.
  \<open>start()\<close> leaves a listener without \<open>close()\<close> calls and the started flag
  set; \<open>stop()\<close> after it gives the same adapter with one \<open>close()\<close> call on the
  listener and the flag cleared, and a further \<open>stop()\<close> changes nothing.
\<close>

theorem stop_lifecycle:
  "(\<not> started a \<longrightarrow> stop a = Inr a)
   \<and> server (start a) = Some \<lparr>listenPort = port (boot a), closeCalls = 0\<rparr>
   \<and> started (start a)
   \<and> (let stopped = (start a)\<lparr>server := Some \<lparr>listenPort = port (boot a), closeCalls = 1\<rparr>,
                               started := False\<rparr>
      in stop (start a) = Inr stopped \<and> stop stopped = Inr stopped)"
  by (simp add: stop_def start_def Let_def listen_def close_def)

theorem stop_lifecycle_witness:
  "\<not> started (newAdapter None) \<and> stop (newAdapter None) = Inr (newAdapter None)"
  using stop_lifecycle [of "newAdapter None"]
  by (simp add: newAdapter_def onPort_def)

section \<open>The request handler without a business handler\<close>

text \<open>
  Claim C6. With no business handler configured, the request handler reports a
  \<open>RequestFlowNotDefined\<close> error through the error handler and emits
  \<open>REQUEST_ERROR\<close>, and then goes on: it runs the normalizer (an exception of the
  normalizer is the outcome) and calls the absent handler, which ends the request
  handler with a \<open>TypeError\<close>.
\<close>

theorem requestHandler_without_handler:
  "apiHandler a = None \<Longrightarrow>
   requestHandler RequestFlowNotDefined a route m request x
     = ((case transformRequest a request of
           Inl thrown \<Rightarrow> Rejected thrown
         | Inr apiRequest \<Rightarrow>
             Rejected (OtherError ''TypeError'' ''this._apiHandler is not a function'')),
        emit a (REQUEST_ERROR
                  (RequestFlowNotDefined
                     ''Express adapter does not have an associated api request handler'')
                  route request),
        errorHandler a x
          (RequestFlowNotDefined
             ''Express adapter does not have an associated api request handler''))"
  by (simp add: requestHandler_def Let_def emit_def split: sum.splits)


theorem requestHandler_without_handler_witness:
  "apiHandler (newAdapter None) = None
   \<and> requestHandler (OtherError ''RequestFlowNotDefined'') (newAdapter None)
        \<lparr>routeRef = 1, url = ''/users'', methods = OneMethod HTTP_get\<rparr> HTTP_get
        \<lparr>originalUrl = ''/users'', ips = [], headers = [], cookies = [], body = [],
         query = [], params = []\<rparr>
        \<lparr>response = [], nextCalls = []\<rparr>
      = (Rejected (OtherError ''TypeError'' ''this._apiHandler is not a function''),
         emit (newAdapter None)
           (REQUEST_ERROR
              (OtherError ''RequestFlowNotDefined''
                 ''Express adapter does not have an associated api request handler'')
              \<lparr>routeRef = 1, url = ''/users'', methods = OneMethod HTTP_get\<rparr>
              \<lparr>originalUrl = ''/users'', ips = [], headers = [], cookies = [], body = [],
               query = [], params = []\<rparr>),
         \<lparr>response = [],
          nextCalls = [OtherError ''RequestFlowNotDefined''
                         ''Express adapter does not have an associated api request handler'']\<rparr>)"
proof -
  have h: "apiHandler (newAdapter None) = None"
    by (simp add: newAdapter_def onPort_def)
  have t: "transformRequest (newAdapter None) = (\<lambda>request. Inr (TransformRequest request))"
    by (simp add: newAdapter_def onPort_def)
  have e: "errorHandler (newAdapter None) = ErrorHandler"
    by (simp add: newAdapter_def onPort_def)
  show ?thesis
    using requestHandler_without_handler [OF h, of "OtherError ''RequestFlowNotDefined''"
        "\<lparr>routeRef = 1, url = ''/users'', methods = OneMethod HTTP_get\<rparr>" HTTP_get
        "\<lparr>originalUrl = ''/users'', ips = [], headers = [], cookies = [], body = [],
          query = [], params = []\<rparr>"
        "\<lparr>response = [], nextCalls = []\<rparr>"]
    by (simp add: h t e ErrorHandler_def)
qed

section \<open>Worked examples\<close>

text \<open>
  A response with a nested command list: the header command and the cookie command are
  executed in order, the command for another adapter and the unknown command leave no
  call; a command list whose second command throws, after the first has set its header
  and before the third is reached; a route bound for \<open>search\<close> with a URL to trim;
  and the canonical request of a request that carries the name \<open>id\<close> in four
  collections.
\<close>

lemma SendResponse_nested_commands_example:
  "SendResponse
     \<lparr>exitCode = 0, status = 201, responsePayload = JNull,
      commands = Some (Cmds
        [Cmd \<lparr>name = ''setHeader'', adapters = NoAdapters,
              payload = [(''X-Test'', StringEntry ''1'')]\<rparr>,
         Cmds [Cmd \<lparr>name = ''setCookie'', adapters = AdapterName ''Express'',
                    payload = [(''session'', CookieEntry
                        \<lparr>cookieValue = ''abc'', cookieOptions = [(''httpOnly'', JBool True)]\<rparr>)]\<rparr>,
               Cmd \<lparr>name = ''setHeader'', adapters = AdapterList [''OtherAdapter''],
                    payload = [(''X-Other'', StringEntry ''2'')]\<rparr>,
               Cmd \<lparr>name = ''unknown'', adapters = NoAdapters, payload = []\<rparr>]])\<rparr>
     []
   = Returns
     [Call_setHeader ''X-Test'' (EntryArg (StringEntry ''1'')),
      Call_cookie ''session'' (Some ''abc'')
        (CookieEntry \<lparr>cookieValue = ''abc'', cookieOptions = [(''httpOnly'', JBool True)]\<rparr>),
      Call_setHeader ''X-Exit-Code'' (NumberArg 0),
      Call_status 201,
      Call_send JNull]"
  by (simp add: SendResponse_def Let_def ADAPTER_NAME_def Commands_def ObjectPrototype_def
        setHeader_def setCookie_def res_setHeader_def res_cookie_def res_status_def
        res_send_def)

lemma applyCommands_throwing_example:
  "applyCommandsToResponse []
     (Cmds
        [Cmd \<lparr>name = ''setHeader'', adapters = NoAdapters,
              payload = [(''X-First'', StringEntry ''1'')]\<rparr>,
         Cmd \<lparr>name = ''__defineGetter__'', adapters = NoAdapters, payload = []\<rparr>,
         Cmd \<lparr>name = ''setHeader'', adapters = NoAdapters,
              payload = [(''X-Third'', StringEntry ''3'')]\<rparr>])
   = Throws [Call_setHeader ''X-First'' (EntryArg (StringEntry ''1''))]
       (OtherError ''TypeError'' ''Expecting function'')"
  by (simp add: ADAPTER_NAME_def Commands_def ObjectPrototype_def setHeader_def
        res_setHeader_def)

lemma addRouteToHttpMethod_example:
  "bindings (express (addRouteToHttpMethod (newAdapter None) HTTP_search
       \<lparr>routeRef = 1, url = '' users/:id  '', methods = OneMethod HTTP_search\<rparr>))
     = [(HTTP_search, ''/users/:id'',
         \<lparr>routeRef = 1, url = '' users/:id  '', methods = OneMethod HTTP_search\<rparr>)]
   \<and> emitted (addRouteToHttpMethod (newAdapter None) HTTP_search
       \<lparr>routeRef = 1, url = '' users/:id  '', methods = OneMethod HTTP_search\<rparr>)
     = [GET_REQUEST \<lparr>routeRef = 1, url = '' users/:id  '', methods = OneMethod HTTP_search\<rparr>,
        REQUEST \<lparr>routeRef = 1, url = '' users/:id  '', methods = OneMethod HTTP_search\<rparr>
          HTTP_search]"
  by (simp add: addRouteToHttpMethod_def Let_def newAdapter_def onPort_def emit_def bind_def
        trim_def isWhiteSpace_def charAt_def)

lemma TransformRequest_example:
  "TransformRequest
     \<lparr>originalUrl = ''/users/7?full=1'', ips = [''10.0.0.1''],
      headers = [(''user-agent'', OneValue ''curl''), (''id'', OneValue ''h'')],
      cookies = [(''id'', JStr ''c'')], body = [(''id'', JNum 3)],
      query = [(''full'', JStr ''1'')], params = [(''id'', JStr ''7'')]\<rparr>
   = \<lparr>adapter = ''Express'', requestUrl = ''/users/7?full=1'', requestMethod = None,
      identification = ''10.0.0.1 | curl'',
      parameters = [(''user-agent'', JStr ''curl'', FromHeader), (''id'', JStr ''h'', FromHeader),
                    (''id'', JStr ''c'', FromCookie), (''id'', JNum 3, FromBody),
                    (''full'', JStr ''1'', FromQuery), (''id'', JStr ''7'', FromUrl)]\<rparr>"
  by (simp add: TransformRequest_def Let_def RouteRequest_def add_def ADAPTER_NAME_def)

end
